theory Spec2Isabelle
  imports Main
begin

section \<open>Values exchanged by the two portals\<close>

text \<open>
  The two services (\<^verbatim>\<open>admin-portal/app.js\<close> and the Redis-backed CS Portal
  \<^verbatim>\<open>app.js\<close>) are Express applications. Their handlers read
  \<^verbatim>\<open>req.kauth.grant.access_token\<close>, call the sibling service with
  \<^verbatim>\<open>fetch\<close>, talk to Redis and answer with \<^verbatim>\<open>res.json\<close> or
  \<^verbatim>\<open>res.redirect\<close>. Each handler is embedded as a function from what it reads
  to what it writes; what the network or Redis answers is an argument of the function.
\<close>

datatype json =
    JNull
  | JBool bool
  | JNum int
  | JStr string
  | JArr "json list"
  | JObj "(string \<times> json) list"

text \<open>
  \<^verbatim>\<open>JSON.stringify\<close> leaves out a key whose value is \<^verbatim>\<open>undefined\<close>:
  an optional string contributes a field only when it is present.
\<close>

definition opt_field :: "string \<Rightarrow> string option \<Rightarrow> (string \<times> json) list" where
  "opt_field k v = (case v of None \<Rightarrow> [] | Some s \<Rightarrow> [(k, JStr s)])"

text \<open>Reading a key of a JSON object (the first binding of the key).\<close>

fun json_member :: "json \<Rightarrow> string \<Rightarrow> json option" where
  "json_member (JObj fs) k = map_of fs k"
| "json_member _ k = None"

text \<open>
  The decoded access token (\<^verbatim>\<open>token.content\<close>): the claims the handlers read.
  \<^verbatim>\<open>realm_access\<close> holds the role list of \<^verbatim>\<open>realm_access.roles\<close>
  when the token has one.
\<close>

record token_content =
  preferred_username :: "string option"
  name :: "string option"
  email :: "string option"
  realm_access :: "string list option"

text \<open>\<^verbatim>\<open>req.kauth.grant.access_token\<close>: the raw JWT and its decoded content.\<close>

record access_token =
  token :: string
  content :: token_content

text \<open>
  \<^verbatim>\<open>token.hasRealmRole(r)\<close>: whether \<^verbatim>\<open>r\<close> is among
  \<^verbatim>\<open>content.realm_access.roles\<close>; false when the token has no role list.
\<close>

definition hasRealmRole :: "access_token \<Rightarrow> string \<Rightarrow> bool" where
  "hasRealmRole t r =
     (case realm_access (content t) of None \<Rightarrow> False | Some rs \<Rightarrow> r \<in> set rs)"

text \<open>What a handler sends: \<^verbatim>\<open>res.redirect(url)\<close> or
  \<^verbatim>\<open>res.status(s).json(v)\<close> (\<^verbatim>\<open>res.json(v)\<close> is status 200), or the
  plain text body of a status.\<close>

datatype reply =
    Redirect string
  | JsonReply nat json
  | TextReply nat string

record response =
  cookies_cleared :: "string list"
  reply :: reply

datatype log_line =
    Info string
  | Error string string

section \<open>Configuration\<close>

text \<open>
  \<^verbatim>\<open>const KEYCLOAK_URL = process.env.KEYCLOAK_URL || 'http://localhost:8080'\<close>:
  the default stands in when the variable is unset or the empty string.
\<close>

record process_env =
  env_KEYCLOAK_URL :: "string option"
  env_CS_PORTAL_URL :: "string option"
  env_ADMIN_PORTAL_URL :: "string option"

definition or_default :: "string option \<Rightarrow> string \<Rightarrow> string" where
  "or_default v d = (case v of None \<Rightarrow> d | Some s \<Rightarrow> if s = [] then d else s)"

definition KEYCLOAK_URL :: "process_env \<Rightarrow> string" where
  "KEYCLOAK_URL e = or_default (env_KEYCLOAK_URL e) ''http://localhost:8080''"

definition CS_PORTAL_URL :: "process_env \<Rightarrow> string" where
  "CS_PORTAL_URL e = or_default (env_CS_PORTAL_URL e) ''http://localhost:3002''"

definition ADMIN_PORTAL_URL :: "process_env \<Rightarrow> string" where
  "ADMIN_PORTAL_URL e = or_default (env_ADMIN_PORTAL_URL e) ''http://localhost:3001''"

text \<open>
  \<^verbatim>\<open>encodeURIComponent\<close> on the UTF-8 bytes of its argument: letters, digits and
  \<^verbatim>\<open>- _ . ! ~ * ' ( )\<close> stay, every other byte becomes \<^verbatim>\<open>%XX\<close>.
\<close>

definition unreserved :: "char \<Rightarrow> bool" where
  "unreserved c =
     (c \<in> set ''ABCDEFGHIJKLMNOPQRSTUVWXYZabcdefghijklmnopqrstuvwxyz0123456789-_.!~*()''
      \<or> c = CHR 0x27)"

definition hex_digit :: "nat \<Rightarrow> char" where
  "hex_digit n = ''0123456789ABCDEF'' ! (n mod 16)"

definition percent :: "char \<Rightarrow> string" where
  "percent c = [CHR ''%'', hex_digit (of_char c div 16), hex_digit (of_char c mod 16)]"

definition encodeURIComponent :: "string \<Rightarrow> string" where
  "encodeURIComponent s = concat (map (\<lambda>c. if unreserved c then [c] else percent c) s)"

section \<open>The session store in Redis\<close>

text \<open>
  Both services keep their sessions in one Redis, each under its own prefix
  (\<^verbatim>\<open>new RedisStore({ client: redisClient, prefix: 'admin-portal:sess:' })\<close> and
  \<^verbatim>\<open>prefix: 'cs-portal:sess:'\<close>). Redis is a map from keys to the stored session.
  A command either reaches the server (\<open>Up\<close>) or is rejected with an error before it
  does (\<open>Down\<close>), which leaves the map as it was.
\<close>

type_synonym redis = "string \<rightharpoonup> json"

datatype link = Up | Down string

datatype 'a outcome = Resolved 'a | Rejected string

definition admin_prefix :: string where
  "admin_prefix = ''admin-portal:sess:''"

definition cs_prefix :: string where
  "cs_prefix = ''cs-portal:sess:''"

text \<open>\<^verbatim>\<open>DEL key\<close> answers the number of keys it removed; a missing key is not an error.\<close>

definition redis_del :: "link \<Rightarrow> string \<Rightarrow> redis \<Rightarrow> nat outcome \<times> redis" where
  "redis_del l k db =
     (case l of
        Up \<Rightarrow> (Resolved (if db k = None then 0 else 1), db(k := None))
      | Down e \<Rightarrow> (Rejected e, db))"

text \<open>The store's operations on a session id: the key is the prefix followed by the id.\<close>

definition store_get :: "string \<Rightarrow> string \<Rightarrow> redis \<Rightarrow> json option" where
  "store_get prefix sid db = db (prefix @ sid)"

definition store_set :: "string \<Rightarrow> string \<Rightarrow> json \<Rightarrow> redis \<Rightarrow> redis" where
  "store_set prefix sid v db = db(prefix @ sid \<mapsto> v)"

text \<open>
  \<^verbatim>\<open>req.session.destroy(cb)\<close> deletes the session's key through the store and calls
  \<^verbatim>\<open>cb(err)\<close>: \<open>None\<close> when the delete went through, the error otherwise.
\<close>

definition session_destroy :: "string \<Rightarrow> link \<Rightarrow> string \<Rightarrow> redis \<Rightarrow> string option \<times> redis" where
  "session_destroy prefix l sid db =
     (case redis_del l (prefix @ sid) db of
        (Resolved n, db') \<Rightarrow> (None, db')
      | (Rejected e, db') \<Rightarrow> (Some e, db'))"

section \<open>Logout\<close>

definition logout_path :: string where
  "logout_path = ''/realms/demo/protocol/openid-connect/logout?redirect_uri=''"

definition admin_logoutUrl :: "process_env \<Rightarrow> string" where
  "admin_logoutUrl e =
     KEYCLOAK_URL e @ logout_path @ encodeURIComponent (ADMIN_PORTAL_URL e @ ''/'')"

definition cs_logoutUrl :: "process_env \<Rightarrow> string" where
  "cs_logoutUrl e =
     KEYCLOAK_URL e @ logout_path @ encodeURIComponent (CS_PORTAL_URL e @ ''/'')"

text \<open>
  \<^verbatim>\<open>app.get('/auth/logout', ...)\<close> of the Admin Portal. \<open>sid\<close> is
  \<^verbatim>\<open>req.sessionID\<close>; \<open>l1\<close> is the link during \<^verbatim>\<open>req.session.destroy\<close>,
  \<open>l2\<close> during the explicit \<^verbatim>\<open>redisClient.del\<close>. The result is the response,
  the console output and Redis afterwards.
\<close>

definition admin_auth_logout ::
  "process_env \<Rightarrow> string \<Rightarrow> link \<Rightarrow> link \<Rightarrow> redis \<Rightarrow> response \<times> log_line list \<times> redis" where
  "admin_auth_logout e sid l1 l2 db =
     (let logoutUrl = admin_logoutUrl e;
          (err, db1) = session_destroy admin_prefix l1 sid db;
          log1 = (case err of None \<Rightarrow> [] | Some m \<Rightarrow> [Error ''Session destruction error:'' m]);
          (r, db2) = redis_del l2 (''admin-portal:sess:'' @ sid) db1;
          log2 = (case r of
                    Resolved n \<Rightarrow> [Info (''Deleted Redis session: admin-portal:sess:'' @ sid)]
                  | Rejected m \<Rightarrow> [Error ''Redis delete error:'' m])
      in (\<lparr>cookies_cleared = [''connect.sid''], reply = Redirect logoutUrl\<rparr>, log1 @ log2, db2))"

text \<open>\<^verbatim>\<open>app.get('/auth/logout', ...)\<close> of the CS Portal.\<close>

definition cs_auth_logout ::
  "process_env \<Rightarrow> string \<Rightarrow> link \<Rightarrow> link \<Rightarrow> redis \<Rightarrow> response \<times> log_line list \<times> redis" where
  "cs_auth_logout e sid l1 l2 db =
     (let log0 = [Info ''Initiating logout process for CS Portal''];
          logoutUrl = cs_logoutUrl e;
          (err, db1) = session_destroy cs_prefix l1 sid db;
          log1 = (case err of None \<Rightarrow> [] | Some m \<Rightarrow> [Error ''Session destruction error:'' m]);
          (r, db2) = redis_del l2 (''cs-portal:sess:'' @ sid) db1;
          log2 = (case r of
                    Resolved n \<Rightarrow> [Info (''Deleted Redis session: cs-portal:sess:'' @ sid)]
                  | Rejected m \<Rightarrow> [Error ''Redis delete error:'' m])
      in (\<lparr>cookies_cleared = [''connect.sid''], reply = Redirect logoutUrl\<rparr>,
          log0 @ log1 @ log2, db2))"

text \<open>Redis as a logout leaves it: the third component of the handler's result.\<close>

definition redis_after :: "response \<times> log_line list \<times> redis \<Rightarrow> redis" where
  "redis_after r = snd (snd r)"

text \<open>
  The earlier, memory-store versions of both portals have
  \<^verbatim>\<open>app.get('/logout', (req, res) => { req.logout ? req.logout() : null; res.redirect('/'); })\<close>.
  \<open>req_logout\<close> is \<^verbatim>\<open>req.logout\<close> when some middleware defined it (as a change of
  the store), \<open>None\<close> otherwise; the handler itself never touches the store.
\<close>

definition legacy_logout :: "('s \<Rightarrow> 's) option \<Rightarrow> 's \<Rightarrow> response \<times> 's" where
  "legacy_logout req_logout st =
     (let st' = (case req_logout of None \<Rightarrow> st | Some f \<Rightarrow> f st)
      in (\<lparr>cookies_cleared = [], reply = Redirect ''/''\<rparr>, st'))"

section \<open>The role-gated API\<close>

text \<open>
  The role guards the routes declare. The Admin Portal passes the string
  \<^verbatim>\<open>'realm:admin'\<close> (the realm role \<^verbatim>\<open>admin\<close>); the CS Portal passes
  \<^verbatim>\<open>(token, request) => token.hasRealmRole('cs') || token.hasRealmRole('admin')\<close>.
  \<open>'r\<close> is the type of the request the function is handed.
\<close>

definition admin_guard :: "access_token \<Rightarrow> 'r \<Rightarrow> bool" where
  "admin_guard t request = hasRealmRole t ''admin''"

definition cs_guard :: "access_token \<Rightarrow> 'r \<Rightarrow> bool" where
  "cs_guard t request = (hasRealmRole t ''cs'' \<or> hasRealmRole t ''admin'')"

text \<open>\<^verbatim>\<open>app.get('/api/profits', keycloak.protect('realm:admin'), ...)\<close> of the Admin
  Portal: the handler that runs once the guard has let the request through.\<close>

definition profit_row :: "int \<Rightarrow> string \<Rightarrow> int \<Rightarrow> int \<Rightarrow> int \<Rightarrow> json" where
  "profit_row i m r x p =
     JObj [(''id'', JNum i), (''month'', JStr m), (''revenue'', JNum r),
           (''expenses'', JNum x), (''profit'', JNum p)]"

definition profits :: "json list" where
  "profits =
     [profit_row 1 ''2026-01'' 150000 85000 65000,
      profit_row 2 ''2026-02'' 175000 92000 83000,
      profit_row 3 ''2026-03'' 162000 88000 74000]"

definition admin_api_profits :: "access_token \<Rightarrow> reply" where
  "admin_api_profits t =
     (let userInfo = content t
      in JsonReply 200
           (JObj ([(''success'', JBool True)] @
                  opt_field ''requestedBy'' (preferred_username userInfo) @
                  [(''data'', JArr profits)])))"

text \<open>\<^verbatim>\<open>app.get('/api/customers', keycloak.protect(...), ...)\<close> of the CS Portal.\<close>

definition customer_row :: "int \<Rightarrow> string \<Rightarrow> string \<Rightarrow> string \<Rightarrow> json" where
  "customer_row i n m s =
     JObj [(''id'', JNum i), (''name'', JStr n), (''email'', JStr m), (''status'', JStr s)]"

definition customers :: "json list" where
  "customers =
     [customer_row 1 ''Alice Chen'' ''alice@example.com'' ''active'',
      customer_row 2 ''Bob Wang'' ''bob@example.com'' ''active'',
      customer_row 3 ''Carol Liu'' ''carol@example.com'' ''pending'']"

definition cs_api_customers :: "access_token \<Rightarrow> reply" where
  "cs_api_customers t =
     (let userInfo = content t
      in JsonReply 200
           (JObj ([(''success'', JBool True)] @
                  opt_field ''requestedBy'' (preferred_username userInfo) @
                  [(''data'', JArr customers)])))"

section \<open>Cross-service calls\<close>

text \<open>
  What \<^verbatim>\<open>fetch(url, { headers })\<close> gives the handler: a network failure (the
  promise rejects with an error of that message), or the sibling's status and body. The
  body is JSON text, or text on which \<^verbatim>\<open>response.json()\<close> rejects (\<open>OtherBody\<close>:
  the text and the message of that error).
\<close>

datatype upstream_body =
    JsonBody json
  | OtherBody string string

datatype fetch_result =
    Fetched nat upstream_body
  | FetchFailed string

type_synonym fetch = "string \<Rightarrow> (string \<times> string) list \<Rightarrow> fetch_result"

definition response_ok :: "nat \<Rightarrow> bool" where
  "response_ok s = (200 \<le> s \<and> s \<le> 299)"

definition bearer_headers :: "access_token \<Rightarrow> (string \<times> string) list" where
  "bearer_headers t = [(''Authorization'', ''Bearer '' @ token t)]"

text \<open>\<^verbatim>\<open>app.get('/api/customers', keycloak.protect('realm:admin'), ...)\<close> of the
  Admin Portal: the proxy to the CS Portal's customers API.\<close>

definition admin_api_customers :: "process_env \<Rightarrow> fetch \<Rightarrow> access_token \<Rightarrow> reply" where
  "admin_api_customers e fetch t =
     (let failed = (\<lambda>m. JsonReply 500
                      (JObj [(''error'', JStr ''Failed to fetch customers''), (''message'', JStr m)]))
      in case fetch (CS_PORTAL_URL e @ ''/api/customers'') (bearer_headers t) of
           FetchFailed m \<Rightarrow> failed m
         | Fetched s b \<Rightarrow>
             (case b of
                OtherBody txt m \<Rightarrow> failed m
              | JsonBody d \<Rightarrow> JsonReply 200 d))"

text \<open>\<^verbatim>\<open>app.get('/api/profits', keycloak.protect(...), ...)\<close> of the CS Portal: the
  proxy to the Admin Portal's profits API.\<close>

definition access_denied :: json where
  "access_denied =
     JObj [(''error'', JStr ''Access Denied''),
           (''message'',
            JStr ''You do not have permission to access profits data (requires admin role)'')]"

definition cs_api_profits :: "process_env \<Rightarrow> fetch \<Rightarrow> access_token \<Rightarrow> reply" where
  "cs_api_profits e fetch t =
     (let failed = (\<lambda>m. JsonReply 500
                      (JObj [(''error'', JStr ''Failed to fetch profits''), (''message'', JStr m)]))
      in case fetch (ADMIN_PORTAL_URL e @ ''/api/profits'') (bearer_headers t) of
           FetchFailed m \<Rightarrow> failed m
         | Fetched s b \<Rightarrow>
             if \<not> response_ok s then JsonReply s access_denied
             else (case b of
                     OtherBody txt m \<Rightarrow> failed m
                   | JsonBody d \<Rightarrow> JsonReply 200 d))"

text \<open>
  The reply that hands a sibling's answer to the caller as it is, status and body: what
  surfacing the sibling's denial means.
\<close>

definition relay :: "nat \<Rightarrow> upstream_body \<Rightarrow> reply" where
  "relay s b = (case b of JsonBody d \<Rightarrow> JsonReply s d | OtherBody txt m \<Rightarrow> TextReply s txt)"

definition reply_status :: "reply \<Rightarrow> nat" where
  "reply_status r = (case r of Redirect u \<Rightarrow> 302 | JsonReply s d \<Rightarrow> s | TextReply s txt \<Rightarrow> s)"

section \<open>The authorization gate\<close>

text \<open>
  The routes are guarded by \<^verbatim>\<open>keycloak.protect(...)\<close> behind
  \<^verbatim>\<open>app.use(keycloak.middleware())\<close>. Both belong to the keycloak-connect package,
  whose code is not among the repository's files: \<^verbatim>\<open>app.js\<close> only calls them. The
  gate below is therefore written from the specification's section 4.3, over the data of
  its section 3 and the operations of its sections 4.1 and 4.2. What the identity provider
  answers is part of the gate's environment. The provider's callback (step 5 of the
  algorithm), which creates a session, is not a decision of this function.
\<close>

text \<open>Modelled from the spec: the token set of a Session Record (section 3),
  \<^verbatim>\<open>{ accessToken, refreshToken?, idToken?, accessTokenExpiry }\<close>; keycloak-connect
  keeps it as its grant.\<close>

record token_set =
  accessToken :: string
  refreshToken :: "string option"
  idToken :: "string option"
  accessTokenExpiry :: nat

text \<open>Modelled from the spec: the Session Record (section 3), kept by the session
  middleware and keycloak-connect's grant store.\<close>

record session_record =
  sessionId :: string
  tokenSet :: token_set
  createdAt :: nat
  lastAccessedAt :: nat

type_synonym sessions = "string \<rightharpoonup> session_record"

text \<open>Modelled from the spec: the Session Manager's \<^verbatim>\<open>get\<close> (section 4.1), done
  by the session middleware: an unavailable store is treated as "no session".\<close>

definition sm_get :: "link \<Rightarrow> sessions \<Rightarrow> string \<Rightarrow> session_record option" where
  "sm_get l ss sid = (case l of Up \<Rightarrow> ss sid | Down e \<Rightarrow> None)"

text \<open>Modelled from the spec: the Session Manager's \<^verbatim>\<open>update\<close> (section 4.1), done
  by keycloak-connect's grant store: it replaces the stored token set; an unavailable
  store is an error handed to the caller.\<close>

definition sm_update :: "link \<Rightarrow> sessions \<Rightarrow> string \<Rightarrow> token_set \<Rightarrow> string + sessions" where
  "sm_update l ss sid ts =
     (case l of
        Down e \<Rightarrow> Inl e
      | Up \<Rightarrow> (case ss sid of
                 None \<Rightarrow> Inr ss
               | Some r \<Rightarrow> Inr (ss(sid \<mapsto> r\<lparr>tokenSet := ts\<rparr>))))"

text \<open>Modelled from the spec: the errors of the Identity Provider Client's
  \<^verbatim>\<open>verify\<close> (section 4.2), which keycloak-connect's grant manager performs.\<close>

datatype verify_error = Expired | BadSignature | WrongIssuer

text \<open>Modelled from the spec: the errors of the Identity Provider Client's
  \<^verbatim>\<open>refresh\<close> and \<^verbatim>\<open>exchangeCodeForTokens\<close> (section 4.2), which
  keycloak-connect's grant manager performs.\<close>

datatype grant_error = InvalidGrant | NetworkFailure

text \<open>Modelled from the spec: \<^verbatim>\<open>buildAuthorizationUrl(clientId, redirectUri, state)\<close>
  (sections 4.2 and 6), built inside keycloak-connect: the provider's authorization
  endpoint with \<^verbatim>\<open>client_id\<close>, \<^verbatim>\<open>redirect_uri\<close>,
  \<^verbatim>\<open>response_type=code\<close> and \<^verbatim>\<open>state\<close>.\<close>

definition buildAuthorizationUrl :: "string \<Rightarrow> string \<Rightarrow> string \<Rightarrow> string \<Rightarrow> string" where
  "buildAuthorizationUrl endpoint clientId redirectUri state =
     endpoint @ ''?client_id='' @ encodeURIComponent clientId
       @ ''&redirect_uri='' @ encodeURIComponent redirectUri
       @ ''&response_type=code&state='' @ encodeURIComponent state"

text \<open>Modelled from the spec: the role predicate of the gate (section 4.3), "either a
  single required role name, or an arbitrary boolean function over the verified role
  set"; keycloak-connect's \<^verbatim>\<open>protect\<close> takes it as its argument.\<close>

datatype role_predicate = RequireRole string | Custom "string set \<Rightarrow> bool"

text \<open>Modelled from the spec: evaluating a role predicate on a role set (section 4.3,
  step 6), done inside keycloak-connect's \<^verbatim>\<open>protect\<close>.\<close>

fun holds :: "role_predicate \<Rightarrow> string set \<Rightarrow> bool" where
  "holds (RequireRole r) roles = (r \<in> roles)"
| "holds (Custom f) roles = f roles"

text \<open>The realm-level role set of a claim set: the roles of \<^verbatim>\<open>realm_access.roles\<close>,
  order and repetition forgotten.\<close>

definition role_set :: "token_content \<Rightarrow> string set" where
  "role_set c = (case realm_access c of None \<Rightarrow> {} | Some rs \<Rightarrow> set rs)"

text \<open>Modelled from the spec: the result of \<^verbatim>\<open>authorize\<close> (section 4.3),
  \<^verbatim>\<open>Allow(claims) | Redirect(authorizationUrl) | Deny(403)\<close>, with the 401 of bearer
  flows and the retryable store error of section 7; keycloak-connect's
  \<^verbatim>\<open>protect\<close> produces it.\<close>

datatype decision =
    Allow token_content
  | RedirectTo string
  | Deny nat
  | StoreFailure string

text \<open>Modelled from the spec: whether a result of \<^verbatim>\<open>authorize\<close> is an
  \<^verbatim>\<open>Allow\<close> (section 4.3), that is, whether keycloak-connect's \<^verbatim>\<open>protect\<close>
  hands the request on to the route's handler.\<close>

definition allowed :: "decision \<Rightarrow> bool" where
  "allowed d = (case d of Allow c \<Rightarrow> True | _ \<Rightarrow> False)"

text \<open>Modelled from the spec: what the gate reads of a request (section 4.3): the bearer
  credential of its authorization header, the browser-presented session identifier,
  whether it is an interactive browser navigation, and the URL of the route.
  keycloak-connect reads these from the Express request.\<close>

record request =
  bearer :: "string option"
  session_cookie :: "string option"
  interactive :: bool
  route :: string

text \<open>Modelled from the spec: the gate's environment during one request: the Identity
  Provider Client's \<^verbatim>\<open>verify\<close> and \<^verbatim>\<open>refresh\<close> (section 4.2) as the provider
  answers them, the configuration (section 9), the time, the store's availability for
  reading and writing (section 4.1), and the freshly generated \<^verbatim>\<open>state\<close>
  (section 4.3, step 4). keycloak-connect holds all of it.\<close>

record gate =
  verify :: "string \<Rightarrow> verify_error + token_content"
  refresh :: "string \<Rightarrow> grant_error + token_set"
  authorization_endpoint :: string
  client_id :: string
  now :: nat
  store_read :: link
  store_write :: link
  fresh_state :: string

text \<open>Modelled from the spec: the answer to an unauthenticated request (section 4.3,
  step 4, and section 7), given inside keycloak-connect's \<^verbatim>\<open>protect\<close>: a redirect to
  the authorization endpoint for an interactive browser navigation, with the fresh state
  and this same route as callback; 401 for a bearer flow. A request that is neither gets
  401 here, the spec being silent.\<close>

definition unauthenticated :: "gate \<Rightarrow> request \<Rightarrow> decision" where
  "unauthenticated g req =
     (if bearer req = None \<and> interactive req
      then RedirectTo (buildAuthorizationUrl (authorization_endpoint g) (client_id g)
                         (route req) (fresh_state g))
      else Deny 401)"

text \<open>Modelled from the spec: step 6 of section 4.3, done inside keycloak-connect's
  \<^verbatim>\<open>protect\<close>: "evaluate the role predicate. If true, return Allow(claims). If
  false, return Deny(403)".\<close>

definition evaluate :: "role_predicate \<Rightarrow> token_content \<Rightarrow> decision" where
  "evaluate P c = (if holds P (role_set c) then Allow c else Deny 403)"

text \<open>Modelled from the spec: claims come from \<^verbatim>\<open>verify\<close> only (section 4.2, "never
  trusts unverified claims"), which keycloak-connect's grant manager performs; a token
  that does not verify leaves the request unauthenticated.\<close>

definition with_claims :: "gate \<Rightarrow> role_predicate \<Rightarrow> request \<Rightarrow> string \<Rightarrow> decision" where
  "with_claims g P req tok =
     (case verify g tok of
        Inl err \<Rightarrow> unauthenticated g req
      | Inr c \<Rightarrow> evaluate P c)"

text \<open>Modelled from the spec: \<^verbatim>\<open>authorize(request, predicate)\<close>, steps 1 to 4 and 6
  of section 4.3, which keycloak-connect's middleware and \<^verbatim>\<open>protect\<close> carry out.
  (1) A bearer credential is verified directly and the session is not looked up.
  (2) Otherwise the session identifier is read; absent or not found is unauthenticated.
  (3) An expired access token with a refresh token is refreshed: on success the record is
  updated and the request continues, on failure it is unauthenticated; an expired token
  without a refresh token is unauthenticated (section 8). (4, 6) as above. The result is
  the decision and the session store afterwards.\<close>

definition authorize ::
  "gate \<Rightarrow> role_predicate \<Rightarrow> request \<Rightarrow> sessions \<Rightarrow> decision \<times> sessions" where
  "authorize g P req ss =
     (case bearer req of
        Some tok \<Rightarrow> (with_claims g P req tok, ss)
      | None \<Rightarrow>
          (case session_cookie req of
             None \<Rightarrow> (unauthenticated g req, ss)
           | Some sid \<Rightarrow>
               (case sm_get (store_read g) ss sid of
                  None \<Rightarrow> (unauthenticated g req, ss)
                | Some r \<Rightarrow>
                    if accessTokenExpiry (tokenSet r) \<le> now g
                    then (case refreshToken (tokenSet r) of
                            None \<Rightarrow> (unauthenticated g req, ss)
                          | Some rt \<Rightarrow>
                              (case refresh g rt of
                                 Inl err \<Rightarrow> (unauthenticated g req, ss)
                               | Inr ts \<Rightarrow>
                                   (case sm_update (store_write g) ss sid ts of
                                      Inl e \<Rightarrow> (StoreFailure e, ss)
                                    | Inr ss' \<Rightarrow>
                                        (with_claims g P req (accessToken ts), ss'))))
                    else (with_claims g P req (accessToken (tokenSet r)), ss))))"

text \<open>The predicates the routes declare, as role predicates: \<^verbatim>\<open>'realm:admin'\<close> on
  the Admin Portal's routes, \<^verbatim>\<open>hasRealmRole('cs') || hasRealmRole('admin')\<close> on the
  CS Portal's.\<close>

definition admin_predicate :: role_predicate where
  "admin_predicate = RequireRole ''admin''"

definition cs_predicate :: role_predicate where
  "cs_predicate = Custom (\<lambda>roles. ''cs'' \<in> roles \<or> ''admin'' \<in> roles)"

section \<open>Sample inputs\<close>

text \<open>Inputs the theorems below are evaluated at: the default environment, the demo's
  \<^verbatim>\<open>csuser\<close> (realm role \<^verbatim>\<open>cs\<close>), a stored session, and a sibling that
  answers every call with \<^verbatim>\<open>403 Access denied\<close> as plain text.\<close>

definition default_env :: process_env where
  "default_env =
     \<lparr>env_KEYCLOAK_URL = None, env_CS_PORTAL_URL = None, env_ADMIN_PORTAL_URL = None\<rparr>"

definition csuser_token :: access_token where
  "csuser_token =
     \<lparr>token = ''eyJjc3VzZXI'',
      content = \<lparr>preferred_username = Some ''csuser'', name = None,
                 email = Some ''csuser@example.com'',
                 realm_access = Some [''cs'', ''default-roles-demo'']\<rparr>\<rparr>"

definition denying_sibling :: fetch where
  "denying_sibling url headers =
     Fetched 403 (OtherBody ''Access denied'' ''Unexpected token A in JSON at position 0'')"

text \<open>A sibling that answers 200 with a JSON object, and one that denies only the call
  carrying \<^verbatim>\<open>csuser\<close>'s token.\<close>

definition serving_sibling :: fetch where
  "serving_sibling url headers = Fetched 200 (JsonBody (JObj [(''success'', JBool True)]))"

definition selective_sibling :: fetch where
  "selective_sibling url headers =
     (if headers = [(''Authorization'', ''Bearer eyJjc3VzZXI'')]
      then Fetched 403 (OtherBody ''Access denied'' ''Unexpected token A in JSON at position 0'')
      else Fetched 200 (JsonBody (JObj [(''success'', JBool True)])))"

definition sample_session :: json where
  "sample_session = JObj [(''keycloak-token'', JStr ''eyJjc3VzZXI'')]"

text \<open>For the gate: the demo's \<^verbatim>\<open>admin\<close> user, a provider that knows three access
  tokens and one refresh token, and a store with a session of each user.\<close>

definition admin_content :: token_content where
  "admin_content =
     \<lparr>preferred_username = Some ''admin'', name = None, email = Some ''admin@example.com'',
      realm_access = Some [''admin'', ''default-roles-demo'']\<rparr>"

definition refreshed_tokens :: token_set where
  "refreshed_tokens =
     \<lparr>accessToken = ''eyJuZXc'', refreshToken = Some ''rt2'', idToken = None,
      accessTokenExpiry = 2800\<rparr>"

definition demo_gate :: gate where
  "demo_gate =
     \<lparr>verify = (\<lambda>tok. if tok = ''eyJjc3VzZXI'' then Inr (content csuser_token)
                       else if tok = ''eyJhZG1pbg'' \<or> tok = ''eyJuZXc'' then Inr admin_content
                       else Inl BadSignature),
      refresh = (\<lambda>rt. if rt = ''rt1'' then Inr refreshed_tokens else Inl InvalidGrant),
      authorization_endpoint = ''http://localhost:8080/realms/demo/protocol/openid-connect/auth'',
      client_id = ''admin-portal'',
      now = 1500,
      store_read = Up,
      store_write = Up,
      fresh_state = ''5a1708b9''\<rparr>"

definition admin_session :: session_record where
  "admin_session =
     \<lparr>sessionId = ''s1'',
      tokenSet = \<lparr>accessToken = ''eyJhZG1pbg'', refreshToken = Some ''rt1'',
                  idToken = None, accessTokenExpiry = 2000\<rparr>,
      createdAt = 1000, lastAccessedAt = 1000\<rparr>"

definition csuser_session :: session_record where
  "csuser_session =
     \<lparr>sessionId = ''s2'',
      tokenSet = \<lparr>accessToken = ''eyJjc3VzZXI'', refreshToken = Some ''rt9'',
                  idToken = None, accessTokenExpiry = 2000\<rparr>,
      createdAt = 1000, lastAccessedAt = 1000\<rparr>"

definition demo_sessions :: sessions where
  "demo_sessions = [''s1'' \<mapsto> admin_session, ''s2'' \<mapsto> csuser_session]"

definition browser_request :: "string \<Rightarrow> request" where
  "browser_request sid =
     \<lparr>bearer = None, session_cookie = Some sid, interactive = True,
      route = ''http://localhost:3001/dashboard''\<rparr>"

definition api_request :: "string \<Rightarrow> request" where
  "api_request tok =
     \<lparr>bearer = Some tok, session_cookie = None, interactive = False,
      route = ''http://localhost:3001/api/profits''\<rparr>"

section \<open>Redis deletes and the logout handlers\<close>

lemma redis_del_absent: "db k = None \<Longrightarrow> snd (redis_del l k db) = db"
  by (cases l) (auto simp: redis_del_def)

lemma redis_del_other: "k' \<noteq> k \<Longrightarrow> snd (redis_del l k db) k' = db k'"
  by (cases l) (simp_all add: redis_del_def)

lemma prefixes_differ: "admin_prefix @ x \<noteq> cs_prefix @ y"
  by (simp add: admin_prefix_def cs_prefix_def)

lemma admin_logout_reply:
  "fst (admin_auth_logout e sid l1 l2 db)
     = \<lparr>cookies_cleared = [''connect.sid''], reply = Redirect (admin_logoutUrl e)\<rparr>"
  by (simp add: admin_auth_logout_def Let_def split: prod.splits)

lemma cs_logout_reply:
  "fst (cs_auth_logout e sid l1 l2 db)
     = \<lparr>cookies_cleared = [''connect.sid''], reply = Redirect (cs_logoutUrl e)\<rparr>"
  by (simp add: cs_auth_logout_def Let_def split: prod.splits)

text \<open>Both deletes of a logout go to the same key: the handler's literal key is the
  store's prefix followed by the session id.\<close>

lemma admin_logout_store:
  "redis_after (admin_auth_logout e sid l1 l2 db) =
     snd (redis_del l2 (admin_prefix @ sid) (snd (redis_del l1 (admin_prefix @ sid) db)))"
  by (cases l1; cases l2)
     (simp_all add: redis_after_def admin_auth_logout_def session_destroy_def redis_del_def
        admin_prefix_def Let_def)

lemma cs_logout_store:
  "redis_after (cs_auth_logout e sid l1 l2 db) =
     snd (redis_del l2 (cs_prefix @ sid) (snd (redis_del l1 (cs_prefix @ sid) db)))"
  by (cases l1; cases l2)
     (simp_all add: redis_after_def cs_auth_logout_def session_destroy_def redis_del_def
        cs_prefix_def Let_def)

text \<open>With no environment variable set, the logout redirects go to the local Keycloak
  with the portal's own root as \<^verbatim>\<open>redirect_uri\<close>.\<close>

lemma default_logout_urls:
  "admin_logoutUrl default_env =
     ''http://localhost:8080/realms/demo/protocol/openid-connect/logout?redirect_uri=http%3A%2F%2Flocalhost%3A3001%2F''
   \<and> cs_logoutUrl default_env =
     ''http://localhost:8080/realms/demo/protocol/openid-connect/logout?redirect_uri=http%3A%2F%2Flocalhost%3A3002%2F''"
  by (simp add: admin_logoutUrl_def cs_logoutUrl_def default_env_def KEYCLOAK_URL_def
      ADMIN_PORTAL_URL_def CS_PORTAL_URL_def or_default_def logout_path_def
      encodeURIComponent_def unreserved_def percent_def hex_digit_def)

text \<open>Deleting a key that is not there: the command answers 0, the callback of
  \<^verbatim>\<open>req.session.destroy\<close> gets no error, and the store is as it was.\<close>

lemma destroy_absent:
  "db (p @ sid) = None \<Longrightarrow>
     redis_del Up (p @ sid) db = (Resolved 0, db) \<and> session_destroy p Up sid db = (None, db)"
  by (simp add: session_destroy_def redis_del_def fun_upd_idem)

text \<open>What a logout writes to the console depends on the two links only, never on
  whether the record exists.\<close>

lemma admin_logout_log:
  "fst (snd (admin_auth_logout e sid l1 l2 db))
     = (case l1 of Up \<Rightarrow> [] | Down m \<Rightarrow> [Error ''Session destruction error:'' m])
       @ (case l2 of
            Up \<Rightarrow> [Info (''Deleted Redis session: admin-portal:sess:'' @ sid)]
          | Down m \<Rightarrow> [Error ''Redis delete error:'' m])"
  by (cases l1; cases l2)
     (simp_all add: admin_auth_logout_def session_destroy_def redis_del_def)

lemma cs_logout_log:
  "fst (snd (cs_auth_logout e sid l1 l2 db))
     = [Info ''Initiating logout process for CS Portal'']
       @ (case l1 of Up \<Rightarrow> [] | Down m \<Rightarrow> [Error ''Session destruction error:'' m])
       @ (case l2 of
            Up \<Rightarrow> [Info (''Deleted Redis session: cs-portal:sess:'' @ sid)]
          | Down m \<Rightarrow> [Error ''Redis delete error:'' m])"
  by (cases l1; cases l2)
     (simp_all add: cs_auth_logout_def session_destroy_def redis_del_def)

text \<open>
  C4. Logout is idempotent. Once a logout has reached Redis with either of its two
  deletes, no record is left under the session's key; a second logout with the same
  identifier answers with the same redirect and leaves Redis as the first one left it,
  whatever happens to its own deletes, and when its deletes reach Redis it logs the
  deletion and no error. Destroying an identifier that has no record (\<open>sid'\<close> in
  \<open>db'\<close>) is not an error: the delete answers 0, the callback of
  \<^verbatim>\<open>req.session.destroy\<close> gets no error, the console shows no error line, the
  reply is the redirect and the store is unchanged; what is logged never depends on
  whether the record exists. When both deletes of a logout are rejected, Redis is as it
  was: a record that was there stays, an identifier without a record stays without one.
\<close>

theorem logout_idempotent:
  assumes reached: "l1 = Up \<or> l2 = Up"
      and stale: "store_get cs_prefix sid' db' = None" "store_get admin_prefix sid' db' = None"
  shows "store_get admin_prefix sid (redis_after (admin_auth_logout e sid l1 l2 db)) = None
       \<and> fst (admin_auth_logout e sid l3 l4 (redis_after (admin_auth_logout e sid l1 l2 db)))
           = fst (admin_auth_logout e sid l1 l2 db)
       \<and> redis_after (admin_auth_logout e sid l3 l4 (redis_after (admin_auth_logout e sid l1 l2 db)))
           = redis_after (admin_auth_logout e sid l1 l2 db)
       \<and> store_get cs_prefix sid (redis_after (cs_auth_logout e sid l1 l2 db)) = None
       \<and> fst (cs_auth_logout e sid l3 l4 (redis_after (cs_auth_logout e sid l1 l2 db)))
           = fst (cs_auth_logout e sid l1 l2 db)
       \<and> redis_after (cs_auth_logout e sid l3 l4 (redis_after (cs_auth_logout e sid l1 l2 db)))
           = redis_after (cs_auth_logout e sid l1 l2 db)
       \<and> reply (fst (admin_auth_logout e sid' l3 l4 db')) = Redirect (admin_logoutUrl e)
       \<and> redis_after (admin_auth_logout e sid' l3 l4 db') = db'
       \<and> reply (fst (cs_auth_logout e sid' l3 l4 db')) = Redirect (cs_logoutUrl e)
       \<and> redis_after (cs_auth_logout e sid' l3 l4 db') = db'
       \<and> redis_del Up (admin_prefix @ sid') db' = (Resolved 0, db')
       \<and> redis_del Up (cs_prefix @ sid') db' = (Resolved 0, db')
       \<and> session_destroy admin_prefix Up sid' db' = (None, db')
       \<and> session_destroy cs_prefix Up sid' db' = (None, db')
       \<and> admin_auth_logout e sid' Up Up db'
           = (\<lparr>cookies_cleared = [''connect.sid''], reply = Redirect (admin_logoutUrl e)\<rparr>,
              [Info (''Deleted Redis session: admin-portal:sess:'' @ sid')], db')
       \<and> cs_auth_logout e sid' Up Up db'
           = (\<lparr>cookies_cleared = [''connect.sid''], reply = Redirect (cs_logoutUrl e)\<rparr>,
              [Info ''Initiating logout process for CS Portal'',
               Info (''Deleted Redis session: cs-portal:sess:'' @ sid')], db')
       \<and> fst (snd (admin_auth_logout e sid Up Up (redis_after (admin_auth_logout e sid l1 l2 db))))
           = [Info (''Deleted Redis session: admin-portal:sess:'' @ sid)]
       \<and> fst (snd (cs_auth_logout e sid Up Up (redis_after (cs_auth_logout e sid l1 l2 db))))
           = [Info ''Initiating logout process for CS Portal'',
              Info (''Deleted Redis session: cs-portal:sess:'' @ sid)]
       \<and> fst (snd (admin_auth_logout e sid' l3 l4 db'))
           = fst (snd (admin_auth_logout e sid' l3 l4 db))
       \<and> fst (snd (cs_auth_logout e sid' l3 l4 db')) = fst (snd (cs_auth_logout e sid' l3 l4 db))
       \<and> redis_after (admin_auth_logout e sid (Down m1) (Down m2) db) = db
       \<and> redis_after (cs_auth_logout e sid (Down m1) (Down m2) db) = db"
proof -
  have gone: "snd (redis_del l2 k (snd (redis_del l1 k d))) k = None" for k and d :: redis
    using reached by (cases l1; cases l2) (simp_all add: redis_del_def)
  have same: "d k = None \<Longrightarrow> snd (redis_del l4 k (snd (redis_del l3 k d))) = d"
    for k and d :: redis
    by (simp add: redis_del_absent)
  have absent: "db' (admin_prefix @ sid') = None" "db' (cs_prefix @ sid') = None"
    using stale by (simp_all add: store_get_def)
  have first: "store_get admin_prefix sid (redis_after (admin_auth_logout e sid l1 l2 db)) = None"
    "store_get cs_prefix sid (redis_after (cs_auth_logout e sid l1 l2 db)) = None"
    by (simp_all add: store_get_def admin_logout_store cs_logout_store gone)
  have second: "fst (admin_auth_logout e sid l3 l4 (redis_after (admin_auth_logout e sid l1 l2 db)))
           = fst (admin_auth_logout e sid l1 l2 db)"
    "redis_after (admin_auth_logout e sid l3 l4 (redis_after (admin_auth_logout e sid l1 l2 db)))
           = redis_after (admin_auth_logout e sid l1 l2 db)"
    "fst (cs_auth_logout e sid l3 l4 (redis_after (cs_auth_logout e sid l1 l2 db)))
           = fst (cs_auth_logout e sid l1 l2 db)"
    "redis_after (cs_auth_logout e sid l3 l4 (redis_after (cs_auth_logout e sid l1 l2 db)))
           = redis_after (cs_auth_logout e sid l1 l2 db)"
    by (simp_all add: admin_logout_store cs_logout_store admin_logout_reply cs_logout_reply
        gone same)
  have nonexistent: "reply (fst (admin_auth_logout e sid' l3 l4 db')) = Redirect (admin_logoutUrl e)"
    "redis_after (admin_auth_logout e sid' l3 l4 db') = db'"
    "reply (fst (cs_auth_logout e sid' l3 l4 db')) = Redirect (cs_logoutUrl e)"
    "redis_after (cs_auth_logout e sid' l3 l4 db') = db'"
    using absent
    by (simp_all add: admin_logout_store cs_logout_store admin_logout_reply cs_logout_reply same)
  have no_error: "redis_del Up (admin_prefix @ sid') db' = (Resolved 0, db')"
    "redis_del Up (cs_prefix @ sid') db' = (Resolved 0, db')"
    "session_destroy admin_prefix Up sid' db' = (None, db')"
    "session_destroy cs_prefix Up sid' db' = (None, db')"
    using absent by (simp_all add: destroy_absent)
  have whole: "admin_auth_logout e sid' Up Up db'
           = (\<lparr>cookies_cleared = [''connect.sid''], reply = Redirect (admin_logoutUrl e)\<rparr>,
              [Info (''Deleted Redis session: admin-portal:sess:'' @ sid')], db')"
    "cs_auth_logout e sid' Up Up db'
           = (\<lparr>cookies_cleared = [''connect.sid''], reply = Redirect (cs_logoutUrl e)\<rparr>,
              [Info ''Initiating logout process for CS Portal'',
               Info (''Deleted Redis session: cs-portal:sess:'' @ sid')], db')"
    using absent
    by (simp_all add: admin_auth_logout_def cs_auth_logout_def session_destroy_def
        redis_del_def admin_prefix_def cs_prefix_def fun_upd_idem)
  have logs: "fst (snd (admin_auth_logout e sid Up Up (redis_after (admin_auth_logout e sid l1 l2 db))))
           = [Info (''Deleted Redis session: admin-portal:sess:'' @ sid)]"
    "fst (snd (cs_auth_logout e sid Up Up (redis_after (cs_auth_logout e sid l1 l2 db))))
           = [Info ''Initiating logout process for CS Portal'',
              Info (''Deleted Redis session: cs-portal:sess:'' @ sid)]"
    "fst (snd (admin_auth_logout e sid' l3 l4 db')) = fst (snd (admin_auth_logout e sid' l3 l4 db))"
    "fst (snd (cs_auth_logout e sid' l3 l4 db')) = fst (snd (cs_auth_logout e sid' l3 l4 db))"
    by (simp_all add: admin_logout_log cs_logout_log)
  have both_fail: "redis_after (admin_auth_logout e sid (Down m1) (Down m2) db) = db"
    "redis_after (cs_auth_logout e sid (Down m1) (Down m2) db) = db"
    by (simp_all add: admin_logout_store cs_logout_store redis_del_def)
  from first second nonexistent no_error whole logs both_fail show ?thesis
    by blast
qed

text \<open>The theorem at a session \<^verbatim>\<open>s1\<close> of the Admin Portal whose first logout loses
  its second delete, and whose second logout loses its first; and at the same identifier
  in an empty store.\<close>

theorem logout_idempotent_witness:
  "store_get admin_prefix ''s1'' Map.empty = None
   \<and> store_get admin_prefix ''s1''
      (redis_after (admin_auth_logout default_env ''s1'' Up (Down ''ECONNRESET'')
         [admin_prefix @ ''s1'' \<mapsto> sample_session])) = None
   \<and> fst (admin_auth_logout default_env ''s1'' (Down ''ECONNREFUSED'') Up
         (redis_after (admin_auth_logout default_env ''s1'' Up (Down ''ECONNRESET'')
            [admin_prefix @ ''s1'' \<mapsto> sample_session])))
       = fst (admin_auth_logout default_env ''s1'' Up (Down ''ECONNRESET'')
            [admin_prefix @ ''s1'' \<mapsto> sample_session])
   \<and> redis_after (admin_auth_logout default_env ''s1'' (Down ''ECONNREFUSED'') Up
         (redis_after (admin_auth_logout default_env ''s1'' Up (Down ''ECONNRESET'')
            [admin_prefix @ ''s1'' \<mapsto> sample_session])))
       = redis_after (admin_auth_logout default_env ''s1'' Up (Down ''ECONNRESET'')
            [admin_prefix @ ''s1'' \<mapsto> sample_session])
   \<and> reply (fst (cs_auth_logout default_env ''s1'' (Down ''ECONNREFUSED'') Up Map.empty))
       = Redirect (cs_logoutUrl default_env)
   \<and> redis_after (cs_auth_logout default_env ''s1'' (Down ''ECONNREFUSED'') Up Map.empty)
       = Map.empty
   \<and> session_destroy admin_prefix Up ''s1'' Map.empty = (None, Map.empty)
   \<and> redis_del Up (admin_prefix @ ''s1'') Map.empty = (Resolved 0, Map.empty)
   \<and> admin_auth_logout default_env ''s1'' Up Up Map.empty
       = (\<lparr>cookies_cleared = [''connect.sid''],
            reply = Redirect (admin_logoutUrl default_env)\<rparr>,
          [Info ''Deleted Redis session: admin-portal:sess:s1''], Map.empty)
   \<and> fst (snd (admin_auth_logout default_env ''s1'' Up Up
         (redis_after (admin_auth_logout default_env ''s1'' Up (Down ''ECONNRESET'')
            [admin_prefix @ ''s1'' \<mapsto> sample_session]))))
       = [Info ''Deleted Redis session: admin-portal:sess:s1'']"
  using logout_idempotent [where ?l1.0 = Up and ?l2.0 = "Down ''ECONNRESET''"
      and ?l3.0 = "Down ''ECONNREFUSED''" and ?l4.0 = Up and sid' = "''s1''"
      and db' = Map.empty and e = default_env and sid = "''s1''"
      and db = "[admin_prefix @ ''s1'' \<mapsto> sample_session]"]
  by (simp add: store_get_def)

text \<open>
  C5. The two services' keys never collide: the Admin Portal's key for an identifier
  \<open>x\<close> differs from the CS Portal's key for any identifier \<open>y\<close> (\<open>y = x\<close>
  included). So what one service writes, destroys or logs out is neither read nor removed
  through the other's prefix.
\<close>

theorem session_namespaces_isolated:
  "admin_prefix @ x \<noteq> cs_prefix @ y
   \<and> store_get cs_prefix y (store_set admin_prefix x v db) = store_get cs_prefix y db
   \<and> store_get admin_prefix x (store_set cs_prefix y v db) = store_get admin_prefix x db
   \<and> store_get admin_prefix x (snd (session_destroy cs_prefix l y db))
       = store_get admin_prefix x db
   \<and> store_get cs_prefix y (snd (session_destroy admin_prefix l x db))
       = store_get cs_prefix y db
   \<and> store_get admin_prefix x (redis_after (cs_auth_logout e y l1 l2 db))
       = store_get admin_prefix x db
   \<and> store_get cs_prefix y (redis_after (admin_auth_logout e x l1 l2 db))
       = store_get cs_prefix y db"
proof -
  have ne: "admin_prefix @ x \<noteq> cs_prefix @ y" by (rule prefixes_differ)
  have ne': "cs_prefix @ y \<noteq> admin_prefix @ x" using ne by simp
  have d1: "snd (session_destroy cs_prefix l y db) = snd (redis_del l (cs_prefix @ y) db)"
    by (cases l) (simp_all add: session_destroy_def redis_del_def)
  have d2: "snd (session_destroy admin_prefix l x db) = snd (redis_del l (admin_prefix @ x) db)"
    by (cases l) (simp_all add: session_destroy_def redis_del_def)
  show ?thesis
    using ne ne'
    by (simp add: store_get_def store_set_def d1 d2 cs_logout_store admin_logout_store
        redis_del_other)
qed

text \<open>
  C9. Every request that reaches the \<^verbatim>\<open>/auth/logout\<close> handler is answered with the cookie
  \<^verbatim>\<open>connect.sid\<close> cleared and a redirect to the identity provider's end-session
  URL, whatever the two deletes do. When both fail, the failures are on the console and
  nowhere else: the response is the same and Redis is as it was.
\<close>

theorem auth_logout_always_redirects:
  "fst (admin_auth_logout e sid l1 l2 db)
     = \<lparr>cookies_cleared = [''connect.sid''], reply = Redirect (admin_logoutUrl e)\<rparr>
   \<and> fst (cs_auth_logout e sid l1 l2 db)
     = \<lparr>cookies_cleared = [''connect.sid''], reply = Redirect (cs_logoutUrl e)\<rparr>
   \<and> admin_logoutUrl e
     = KEYCLOAK_URL e @ ''/realms/demo/protocol/openid-connect/logout?redirect_uri=''
         @ encodeURIComponent (ADMIN_PORTAL_URL e @ ''/'')
   \<and> cs_logoutUrl e
     = KEYCLOAK_URL e @ ''/realms/demo/protocol/openid-connect/logout?redirect_uri=''
         @ encodeURIComponent (CS_PORTAL_URL e @ ''/'')
   \<and> fst (snd (admin_auth_logout e sid (Down m1) (Down m2) db))
     = [Error ''Session destruction error:'' m1, Error ''Redis delete error:'' m2]
   \<and> fst (snd (cs_auth_logout e sid (Down m1) (Down m2) db))
     = [Info ''Initiating logout process for CS Portal'',
        Error ''Session destruction error:'' m1, Error ''Redis delete error:'' m2]
   \<and> redis_after (admin_auth_logout e sid (Down m1) (Down m2) db) = db
   \<and> redis_after (cs_auth_logout e sid (Down m1) (Down m2) db) = db"
proof -
  have logs: "fst (snd (admin_auth_logout e sid (Down m1) (Down m2) db))
       = [Error ''Session destruction error:'' m1, Error ''Redis delete error:'' m2]"
    "fst (snd (cs_auth_logout e sid (Down m1) (Down m2) db))
       = [Info ''Initiating logout process for CS Portal'',
          Error ''Session destruction error:'' m1, Error ''Redis delete error:'' m2]"
    by (simp_all add: admin_auth_logout_def cs_auth_logout_def session_destroy_def
        redis_del_def)
  have stores: "redis_after (admin_auth_logout e sid (Down m1) (Down m2) db) = db"
    "redis_after (cs_auth_logout e sid (Down m1) (Down m2) db) = db"
    by (simp_all add: admin_logout_store cs_logout_store redis_del_def)
  show ?thesis
    by (simp add: admin_logout_reply cs_logout_reply logs stores admin_logoutUrl_def
        cs_logoutUrl_def logout_path_def)
qed

text \<open>
  The earlier \<^verbatim>\<open>/logout\<close> route (\<^verbatim>\<open>cs-portal/app.js\<close> and the second
  version in \<^verbatim>\<open>admin-portal/app.js\<close>): with no \<^verbatim>\<open>req.logout\<close> defined, the
  handler redirects to \<^verbatim>\<open>/\<close>, clears no cookie and leaves the session store as
  it was.
\<close>

lemma legacy_logout_leaves_store:
  "legacy_logout None st = (\<lparr>cookies_cleared = [], reply = Redirect ''/''\<rparr>, st)"
  by (simp add: legacy_logout_def)

section \<open>The API handlers\<close>

text \<open>
  C10. Whatever token the guard let through, \<^verbatim>\<open>/api/profits\<close> answers 200 with a
  JSON object whose \<^verbatim>\<open>success\<close> is true, whose \<^verbatim>\<open>requestedBy\<close> is the
  token's \<^verbatim>\<open>preferred_username\<close> (absent when the claim is), and whose
  \<^verbatim>\<open>data\<close> is the same three rows for every caller.
\<close>

theorem api_profits_response:
  "\<exists>body. admin_api_profits t = JsonReply 200 body
     \<and> json_member body ''success'' = Some (JBool True)
     \<and> json_member body ''requestedBy'' = map_option JStr (preferred_username (content t))
     \<and> json_member body ''data''
         = Some (JArr [profit_row 1 ''2026-01'' 150000 85000 65000,
                       profit_row 2 ''2026-02'' 175000 92000 83000,
                       profit_row 3 ''2026-03'' 162000 88000 74000])
     \<and> json_member body ''data'' = Some (JArr profits)
     \<and> length profits = 3"
  by (cases "preferred_username (content t)")
     (simp_all add: admin_api_profits_def opt_field_def profits_def)

text \<open>
  C2 as stated fails at the CS Portal's proxy: when the Admin Portal answers
  \<^verbatim>\<open>403 Access denied\<close>, the caller gets status 403 with the proxy's own JSON
  message, not the sibling's body.
\<close>

theorem cs_proxy_masks_denial:
  "cs_api_profits default_env denying_sibling csuser_token = JsonReply 403 access_denied
   \<and> cs_api_profits default_env denying_sibling csuser_token
       \<noteq> relay 403 (OtherBody ''Access denied'' ''Unexpected token A in JSON at position 0'')"
  by (simp add: cs_api_profits_def denying_sibling_def response_ok_def relay_def)

text \<open>The Admin Portal's proxy has no check of the sibling's status: on the same answer
  it fails to parse the body and replies 500.\<close>

lemma admin_proxy_on_denial:
  "admin_api_customers default_env denying_sibling csuser_token
     = JsonReply 500 (JObj [(''error'', JStr ''Failed to fetch customers''),
                            (''message'', JStr ''Unexpected token A in JSON at position 0'')])"
  by (simp add: admin_api_customers_def denying_sibling_def)

text \<open>
  C2, amended. When the CS Portal's \<^verbatim>\<open>/api/profits\<close> proxy calls the Admin Portal
  with the caller's bearer token and the answer's status \<open>s\<close> is not 2xx (403 among
  them), the proxy replies with status \<open>s\<close> and its own fixed
  \<^verbatim>\<open>Access Denied\<close> object: nothing of the sibling's body \<open>b\<close> is passed on.
\<close>

theorem cs_proxy_propagates_status:
  assumes "fetch (ADMIN_PORTAL_URL e @ ''/api/profits'')
             [(''Authorization'', ''Bearer '' @ token t)] = Fetched s b"
      and "\<not> response_ok s"
  shows "cs_api_profits e fetch t = JsonReply s access_denied
       \<and> reply_status (cs_api_profits e fetch t) = s"
  using assms by (simp add: cs_api_profits_def bearer_headers_def reply_status_def)

text \<open>The amended claim at \<^verbatim>\<open>csuser\<close>'s token and a sibling answering 403.\<close>

theorem cs_proxy_propagates_status_witness:
  "denying_sibling (ADMIN_PORTAL_URL default_env @ ''/api/profits'')
       [(''Authorization'', ''Bearer '' @ token csuser_token)]
     = Fetched 403 (OtherBody ''Access denied'' ''Unexpected token A in JSON at position 0'')
   \<and> \<not> response_ok 403
   \<and> cs_api_profits default_env denying_sibling csuser_token = JsonReply 403 access_denied
   \<and> reply_status (cs_api_profits default_env denying_sibling csuser_token) = 403"
proof -
  have f: "denying_sibling (ADMIN_PORTAL_URL default_env @ ''/api/profits'')
       [(''Authorization'', ''Bearer '' @ token csuser_token)]
     = Fetched 403 (OtherBody ''Access denied'' ''Unexpected token A in JSON at position 0'')"
    by (simp add: denying_sibling_def)
  have n: "\<not> response_ok 403" by (simp add: response_ok_def)
  show ?thesis
    using f n cs_proxy_propagates_status [where fetch = denying_sibling and e = default_env
        and t = csuser_token and s = 403, OF f n]
    by blast
qed

text \<open>A 2xx answer with a JSON body is passed on by the CS Portal's proxy with status
  200.\<close>

lemma proxy_passes_success:
  assumes "fetch (ADMIN_PORTAL_URL e @ ''/api/profits'')
             [(''Authorization'', ''Bearer '' @ token t)] = Fetched s (JsonBody d)"
      and "response_ok s"
  shows "cs_api_profits e fetch t = JsonReply 200 d"
  using assms by (simp add: cs_api_profits_def bearer_headers_def)

lemma proxy_passes_success_witness:
  "serving_sibling (ADMIN_PORTAL_URL default_env @ ''/api/profits'')
       [(''Authorization'', ''Bearer '' @ token csuser_token)]
     = Fetched 200 (JsonBody (JObj [(''success'', JBool True)]))
   \<and> response_ok 200
   \<and> cs_api_profits default_env serving_sibling csuser_token
       = JsonReply 200 (JObj [(''success'', JBool True)])"
proof -
  have f: "serving_sibling (ADMIN_PORTAL_URL default_env @ ''/api/profits'')
       [(''Authorization'', ''Bearer '' @ token csuser_token)]
     = Fetched 200 (JsonBody (JObj [(''success'', JBool True)]))"
    by (simp add: serving_sibling_def)
  have k: "response_ok 200" by (simp add: response_ok_def)
  show ?thesis
    using f k proxy_passes_success [where fetch = serving_sibling and e = default_env
        and t = csuser_token, OF f k]
    by blast
qed

text \<open>Each proxy makes one call: to the sibling's route, with the caller's own raw token
  as bearer credential. Its reply depends on the network through the answer to that call
  only.\<close>

lemma proxies_send_caller_token:
  assumes "fetch (CS_PORTAL_URL e @ ''/api/customers'')
             [(''Authorization'', ''Bearer '' @ token t)]
           = fetch' (CS_PORTAL_URL e @ ''/api/customers'')
               [(''Authorization'', ''Bearer '' @ token t)]"
      and "fetch (ADMIN_PORTAL_URL e @ ''/api/profits'')
             [(''Authorization'', ''Bearer '' @ token t)]
           = fetch' (ADMIN_PORTAL_URL e @ ''/api/profits'')
               [(''Authorization'', ''Bearer '' @ token t)]"
  shows "admin_api_customers e fetch t = admin_api_customers e fetch' t
       \<and> cs_api_profits e fetch t = cs_api_profits e fetch' t"
  using assms by (simp add: admin_api_customers_def cs_api_profits_def bearer_headers_def)

lemma proxies_send_caller_token_witness:
  "admin_api_customers default_env denying_sibling csuser_token
     = admin_api_customers default_env selective_sibling csuser_token
   \<and> cs_api_profits default_env denying_sibling csuser_token
     = cs_api_profits default_env selective_sibling csuser_token
   \<and> denying_sibling ''http://localhost:3001/api/profits'' []
     \<noteq> selective_sibling ''http://localhost:3001/api/profits'' []"
proof -
  have a: "denying_sibling u [(''Authorization'', ''Bearer '' @ token csuser_token)]
      = selective_sibling u [(''Authorization'', ''Bearer '' @ token csuser_token)]" for u
    by (simp add: denying_sibling_def selective_sibling_def csuser_token_def)
  have d: "denying_sibling ''http://localhost:3001/api/profits'' []
      \<noteq> selective_sibling ''http://localhost:3001/api/profits'' []"
    by (simp add: denying_sibling_def selective_sibling_def)
  show ?thesis
    using d proxies_send_caller_token [where fetch = denying_sibling
        and fetch' = selective_sibling and e = default_env and t = csuser_token, OF a a]
    by blast
qed

section \<open>The authorization gate's decisions\<close>

lemma hasRealmRole_role_set: "hasRealmRole t r = (r \<in> role_set (content t))"
  by (simp add: hasRealmRole_def role_set_def split: option.splits)

text \<open>The guards the routes pass are membership tests on the token's realm roles; whoever
  passes the Admin Portal's guard passes the CS Portal's.\<close>

lemma route_guards_by_role:
  "cs_guard t req = (''cs'' \<in> role_set (content t) \<or> ''admin'' \<in> role_set (content t))
   \<and> admin_guard t req = (''admin'' \<in> role_set (content t))
   \<and> cs_guard t req' = (admin_guard t req \<or> ''cs'' \<in> role_set (content t))"
  by (auto simp: cs_guard_def admin_guard_def hasRealmRole_role_set)

lemma authorize_bearer:
  "bearer req = Some tok \<Longrightarrow> verify g tok = Inr c \<Longrightarrow> authorize g P req ss = (evaluate P c, ss)"
  by (simp add: authorize_def with_claims_def)

lemma authorize_session:
  "bearer req = None \<Longrightarrow> session_cookie req = Some sid \<Longrightarrow>
   sm_get (store_read g) ss sid = Some r \<Longrightarrow> now g < accessTokenExpiry (tokenSet r) \<Longrightarrow>
   verify g (accessToken (tokenSet r)) = Inr c \<Longrightarrow>
   authorize g P req ss = (evaluate P c, ss)"
  by (simp add: authorize_def with_claims_def)

lemma unauthenticated_not_forbidden: "unauthenticated g req \<noteq> Deny 403"
  by (simp add: unauthenticated_def)

lemma demo_sessions_s2: "demo_sessions ''s2'' = Some csuser_session"
  by (simp add: demo_sessions_def)

text \<open>
  C1. Let \<open>c\<close> be the verified claim set of a token. A request that carries the token
  as a bearer credential and a request that carries the cookie of a session holding the
  same, unexpired token get the same decision: Allow with \<open>c\<close> if the predicate holds
  on the role set of \<open>c\<close>, 403 otherwise; the store is not changed. The predicates the
  routes pass to the guard are functions of the token's realm roles and ignore the
  request they are handed.
\<close>

theorem authorize_path_equivalence:
  assumes verified: "verify g tok = Inr c"
      and by_bearer: "bearer rb = Some tok"
      and by_cookie: "bearer rc = None" "session_cookie rc = Some sid"
      and session: "sm_get (store_read g) ss sid = Some r" "accessToken (tokenSet r) = tok"
                   "now g < accessTokenExpiry (tokenSet r)"
  shows "authorize g P rb ss = (if holds P (role_set c) then Allow c else Deny 403, ss)
       \<and> authorize g P rc ss = authorize g P rb ss
       \<and> allowed (fst (authorize g P rb ss)) = holds P (role_set c)
       \<and> allowed (fst (authorize g P rc ss)) = holds P (role_set c)
       \<and> cs_guard t req = holds cs_predicate (role_set (content t))
       \<and> cs_guard t req = cs_guard t req'
       \<and> admin_guard t req = holds admin_predicate (role_set (content t))
       \<and> admin_guard t req = admin_guard t req'"
proof -
  have b: "authorize g P rb ss = (evaluate P c, ss)"
    using by_bearer verified by (rule authorize_bearer)
  have k: "authorize g P rc ss = (evaluate P c, ss)"
    using by_cookie session verified by (simp add: authorize_session)
  have e: "evaluate P c = (if holds P (role_set c) then Allow c else Deny 403)"
    by (simp add: evaluate_def)
  have guards: "cs_guard t req = holds cs_predicate (role_set (content t))"
    "cs_guard t req = cs_guard t req'"
    "admin_guard t req = holds admin_predicate (role_set (content t))"
    "admin_guard t req = admin_guard t req'"
    by (simp_all add: cs_guard_def admin_guard_def cs_predicate_def admin_predicate_def
        hasRealmRole_role_set)
  have a: "allowed (fst (authorize g P rb ss)) = holds P (role_set c)"
    "allowed (fst (authorize g P rc ss)) = holds P (role_set c)"
    by (simp_all add: b k allowed_def evaluate_def)
  from guards a show ?thesis
    by (simp add: b k e)
qed

text \<open>The theorem at the demo's \<^verbatim>\<open>admin\<close>, on the CS Portal's predicate: the token
  as bearer credential and the cookie of the session \<^verbatim>\<open>s1\<close> are both allowed.\<close>

theorem authorize_path_equivalence_witness:
  "verify demo_gate ''eyJhZG1pbg'' = Inr admin_content
   \<and> sm_get (store_read demo_gate) demo_sessions ''s1'' = Some admin_session
   \<and> authorize demo_gate cs_predicate (api_request ''eyJhZG1pbg'') demo_sessions
       = (Allow admin_content, demo_sessions)
   \<and> authorize demo_gate cs_predicate (browser_request ''s1'') demo_sessions
       = authorize demo_gate cs_predicate (api_request ''eyJhZG1pbg'') demo_sessions"
proof -
  have v: "verify demo_gate ''eyJhZG1pbg'' = Inr admin_content"
    by (simp add: demo_gate_def)
  have rb: "bearer (api_request ''eyJhZG1pbg'') = Some ''eyJhZG1pbg''"
    by (simp add: api_request_def)
  have rc: "bearer (browser_request ''s1'') = None"
    "session_cookie (browser_request ''s1'') = Some ''s1''"
    by (simp_all add: browser_request_def)
  have s: "sm_get (store_read demo_gate) demo_sessions ''s1'' = Some admin_session"
    by (simp add: demo_gate_def demo_sessions_def sm_get_def)
  have tk: "accessToken (tokenSet admin_session) = ''eyJhZG1pbg''"
    by (simp add: admin_session_def)
  have fresh: "now demo_gate < accessTokenExpiry (tokenSet admin_session)"
    by (simp add: demo_gate_def admin_session_def)
  have h: "holds cs_predicate (role_set admin_content)"
    by (simp add: cs_predicate_def role_set_def admin_content_def)
  show ?thesis
    using v s h
      authorize_path_equivalence [OF v rb rc s tk fresh, where P = cs_predicate
        and t = csuser_token and req = "browser_request ''s1''"
        and req' = "api_request ''eyJhZG1pbg''"]
    by simp
qed

text \<open>
  C3. An authenticated request, by bearer credential or by the cookie of a session with
  an unexpired token, whose verified role set fails the route's predicate is answered 403:
  never a redirect, and not the answer an unauthenticated request would get.
\<close>

theorem forbidden_not_redirect:
  assumes lacks: "\<not> holds P (role_set c)"
      and authenticated:
        "(bearer req = Some tok \<and> verify g tok = Inr c)
         \<or> (bearer req = None \<and> session_cookie req = Some sid
            \<and> sm_get (store_read g) ss sid = Some r
            \<and> now g < accessTokenExpiry (tokenSet r)
            \<and> verify g (accessToken (tokenSet r)) = Inr c)"
  shows "authorize g P req ss = (Deny 403, ss)
       \<and> fst (authorize g P req ss) \<noteq> RedirectTo u
       \<and> fst (authorize g P req ss) \<noteq> unauthenticated g req"
proof -
  have "authorize g P req ss = (evaluate P c, ss)"
    using authenticated by (auto simp: authorize_bearer authorize_session)
  moreover have "evaluate P c = Deny 403"
    using lacks by (simp add: evaluate_def)
  moreover have "unauthenticated g req \<noteq> Deny 403"
    by (rule unauthenticated_not_forbidden)
  ultimately show ?thesis by simp
qed

text \<open>The theorem at \<^verbatim>\<open>csuser\<close> (roles \<^verbatim>\<open>cs\<close>, \<^verbatim>\<open>default-roles-demo\<close>) on
  the Admin Portal's predicate, by either path; an unauthenticated browser would have been
  redirected to the provider instead.\<close>

theorem forbidden_not_redirect_witness:
  "\<not> holds admin_predicate (role_set (content csuser_token))
   \<and> \<not> admin_guard csuser_token (browser_request ''s2'')
   \<and> verify demo_gate ''eyJjc3VzZXI'' = Inr (content csuser_token)
   \<and> sm_get (store_read demo_gate) demo_sessions ''s2'' = Some csuser_session
   \<and> authorize demo_gate admin_predicate (api_request ''eyJjc3VzZXI'') demo_sessions
       = (Deny 403, demo_sessions)
   \<and> authorize demo_gate admin_predicate (browser_request ''s2'') demo_sessions
       = (Deny 403, demo_sessions)
   \<and> unauthenticated demo_gate (browser_request ''s2'')
       = RedirectTo ''http://localhost:8080/realms/demo/protocol/openid-connect/auth?client_id=admin-portal&redirect_uri=http%3A%2F%2Flocalhost%3A3001%2Fdashboard&response_type=code&state=5a1708b9''"
proof -
  have l: "\<not> holds admin_predicate (role_set (content csuser_token))"
    by (simp add: admin_predicate_def role_set_def csuser_token_def)
  have g: "\<not> admin_guard csuser_token (browser_request ''s2'')"
    by (simp add: admin_guard_def hasRealmRole_def csuser_token_def)
  have v: "verify demo_gate ''eyJjc3VzZXI'' = Inr (content csuser_token)"
    by (simp add: demo_gate_def)
  have s: "sm_get (store_read demo_gate) demo_sessions ''s2'' = Some csuser_session"
    by (simp add: demo_gate_def sm_get_def demo_sessions_s2)
  have b: "bearer (api_request ''eyJjc3VzZXI'') = Some ''eyJjc3VzZXI''
           \<and> verify demo_gate ''eyJjc3VzZXI'' = Inr (content csuser_token)"
    using v by (simp add: api_request_def)
  have k: "bearer (browser_request ''s2'') = None
           \<and> session_cookie (browser_request ''s2'') = Some ''s2''
           \<and> sm_get (store_read demo_gate) demo_sessions ''s2'' = Some csuser_session
           \<and> now demo_gate < accessTokenExpiry (tokenSet csuser_session)
           \<and> verify demo_gate (accessToken (tokenSet csuser_session))
               = Inr (content csuser_token)"
    using s by (simp add: browser_request_def demo_gate_def csuser_session_def)
  have u: "unauthenticated demo_gate (browser_request ''s2'')
       = RedirectTo ''http://localhost:8080/realms/demo/protocol/openid-connect/auth?client_id=admin-portal&redirect_uri=http%3A%2F%2Flocalhost%3A3001%2Fdashboard&response_type=code&state=5a1708b9''"
    by (simp add: unauthenticated_def browser_request_def demo_gate_def
        buildAuthorizationUrl_def encodeURIComponent_def unreserved_def percent_def
        hex_digit_def)
  show ?thesis
    using l g v s u
      forbidden_not_redirect [OF l disjI1 [OF b], where ss = demo_sessions]
      forbidden_not_redirect [OF l disjI2 [OF k]]
    by simp
qed

text \<open>
  C6. A request carrying the cookie of a session whose access token is expired and which
  has a refresh token is refreshed. When the provider answers the refresh with a new
  token set and the store takes the write, the record's token set is replaced by the new
  one and the predicate is evaluated on the claims of the new access token: Allow if it
  holds. When the provider rejects the refresh, the request is unauthenticated (a redirect
  or 401), not 403, and the store is unchanged.
\<close>

theorem expired_session_refreshes:
  assumes by_cookie: "bearer req = None" "session_cookie req = Some sid"
      and session: "sm_get (store_read g) ss sid = Some r"
      and expired: "accessTokenExpiry (tokenSet r) \<le> now g"
      and has_refresh: "refreshToken (tokenSet r) = Some rt"
  shows "(refresh g rt = Inr ts \<and> store_write g = Up \<and> verify g (accessToken ts) = Inr c
            \<longrightarrow> authorize g P req ss
                  = (if holds P (role_set c) then Allow c else Deny 403,
                     ss(sid \<mapsto> r\<lparr>tokenSet := ts\<rparr>))
                \<and> map_option tokenSet (snd (authorize g P req ss) sid) = Some ts)
       \<and> (refresh g rt = Inl err
            \<longrightarrow> authorize g P req ss = (unauthenticated g req, ss)
                \<and> fst (authorize g P req ss) \<noteq> Deny 403)"
proof -
  have stored: "ss sid = Some r"
    using session by (cases "store_read g") (simp_all add: sm_get_def)
  have ok: "authorize g P req ss = (evaluate P c, ss(sid \<mapsto> r\<lparr>tokenSet := ts\<rparr>))"
    if "refresh g rt = Inr ts" "store_write g = Up" "verify g (accessToken ts) = Inr c"
    using that by_cookie session expired has_refresh stored
    by (simp add: authorize_def sm_update_def with_claims_def)
  have bad: "authorize g P req ss = (unauthenticated g req, ss)" if "refresh g rt = Inl err"
    using that by_cookie session expired has_refresh
    by (simp add: authorize_def)
  show ?thesis
    using ok bad by (simp add: evaluate_def unauthenticated_not_forbidden)
qed

text \<open>The theorem at time 2500, when both demo sessions have expired: the provider
  refreshes \<^verbatim>\<open>rt1\<close> of \<^verbatim>\<open>s1\<close>, which is allowed with the new record stored, and
  rejects \<^verbatim>\<open>rt9\<close> of \<^verbatim>\<open>s2\<close>, which is unauthenticated.\<close>

theorem expired_session_refreshes_witness:
  "sm_get (store_read (demo_gate\<lparr>now := 2500\<rparr>)) demo_sessions ''s1'' = Some admin_session
   \<and> accessTokenExpiry (tokenSet admin_session) \<le> now (demo_gate\<lparr>now := 2500\<rparr>)
   \<and> refresh (demo_gate\<lparr>now := 2500\<rparr>) ''rt1'' = Inr refreshed_tokens
   \<and> authorize (demo_gate\<lparr>now := 2500\<rparr>) admin_predicate (browser_request ''s1'') demo_sessions
       = (Allow admin_content,
          demo_sessions(''s1'' \<mapsto> admin_session\<lparr>tokenSet := refreshed_tokens\<rparr>))
   \<and> refresh (demo_gate\<lparr>now := 2500\<rparr>) ''rt9'' = Inl InvalidGrant
   \<and> authorize (demo_gate\<lparr>now := 2500\<rparr>) cs_predicate (browser_request ''s2'') demo_sessions
       = (unauthenticated (demo_gate\<lparr>now := 2500\<rparr>) (browser_request ''s2''), demo_sessions)"
proof -
  let ?g = "demo_gate\<lparr>now := 2500\<rparr>"
  have rc: "bearer (browser_request sid) = None"
    "session_cookie (browser_request sid) = Some sid" for sid
    by (simp_all add: browser_request_def)
  have s1: "sm_get (store_read ?g) demo_sessions ''s1'' = Some admin_session"
    by (simp add: demo_gate_def demo_sessions_def sm_get_def)
  have s2: "sm_get (store_read ?g) demo_sessions ''s2'' = Some csuser_session"
    by (simp add: demo_gate_def sm_get_def demo_sessions_s2)
  have x1: "accessTokenExpiry (tokenSet admin_session) \<le> now ?g"
    by (simp add: admin_session_def)
  have x2: "accessTokenExpiry (tokenSet csuser_session) \<le> now ?g"
    by (simp add: csuser_session_def)
  have t1: "refreshToken (tokenSet admin_session) = Some ''rt1''"
    by (simp add: admin_session_def)
  have t2: "refreshToken (tokenSet csuser_session) = Some ''rt9''"
    by (simp add: csuser_session_def)
  have r1: "refresh ?g ''rt1'' = Inr refreshed_tokens"
    by (simp add: demo_gate_def)
  have r2: "refresh ?g ''rt9'' = Inl InvalidGrant"
    by (simp add: demo_gate_def)
  have w: "store_write ?g = Up"
    by (simp add: demo_gate_def)
  have v: "verify ?g (accessToken refreshed_tokens) = Inr admin_content"
    by (simp add: demo_gate_def refreshed_tokens_def)
  have h: "holds admin_predicate (role_set admin_content)"
    by (simp add: admin_predicate_def role_set_def admin_content_def)
  show ?thesis
    using s1 x1 r1 r2 w v h
      expired_session_refreshes [OF rc s1 x1 t1, where ts = refreshed_tokens
        and c = admin_content and P = admin_predicate and err = InvalidGrant]
      expired_session_refreshes [OF rc s2 x2 t2, where ts = refreshed_tokens
        and c = admin_content and P = cs_predicate and err = InvalidGrant]
    by simp
qed

end
